theory Spec2Isabelle
  imports Main "HOL-Library.Word"
begin

section \<open>Values that reach the handlers\<close>

text \<open>
  The controller reads three things from a request: \<open>req.body.name\<close> (a value of the
  JSON body), \<open>req.query.name\<close> (a value of the parsed query string) and
  \<open>req.params.id\<close> (always a string). The handlers test these values with JavaScript's
  \<open>!x\<close>, \<open>typeof x\<close> and \<open>String(x)\<close>, so the values are modelled with the
  shapes those operators tell apart. Numbers are kept as integers: the handlers only ask
  whether a number is zero.
\<close>

datatype json =
    JUndefined
  | JNull
  | JBool bool
  | JNum int
  | JStr string
  | JArr "json list"
  | JObj "(string \<times> json) list"

text \<open>
  What a handler's \<open>catch\<close> receives: a rejected store call carries a JavaScript
  \<open>Error\<close>, a failed coercion throws a \<open>TypeError\<close>.
\<close>

datatype exn = Error string | TypeError string

text \<open>JavaScript truthiness of a body value: \<open>!name\<close> is \<open>\<not> truthy name\<close>.\<close>

fun truthy :: "json \<Rightarrow> bool" where
  "truthy JUndefined = False"
| "truthy JNull = False"
| "truthy (JBool b) = b"
| "truthy (JNum n) = (n \<noteq> 0)"
| "truthy (JStr s) = (s \<noteq> [])"
| "truthy (JArr xs) = True"
| "truthy (JObj kvs) = True"

text \<open>
  Coercing a value to a string (in a template literal, or by \<open>String(x)\<close>) can throw.
  A parsed object inherits \<open>toString\<close> unless it has a key of that name; such a key
  holds data, not a function, and then the coercion finds nothing to call and throws a
  \<open>TypeError\<close>. An array is coerced by joining its elements, coercing each one that
  is neither \<open>null\<close> nor \<open>undefined\<close>. Every other value coerces without throwing.
  \<open>ToString_throws_json\<close> says whether the coercion of a body value throws.
\<close>

fun ToString_throws_json :: "json \<Rightarrow> bool" where
  "ToString_throws_json (JArr xs) = list_ex ToString_throws_json xs"
| "ToString_throws_json (JObj kvs) = (''toString'' \<in> set (map fst kvs))"
| "ToString_throws_json v = False"

text \<open>
  A query-string value as the query parser delivers it: absent, a string, an array
  (a repeated parameter) or a nested object.
\<close>

datatype qval =
    QUndefined
  | QStr string
  | QArr "qval list"
  | QObj "(string \<times> qval) list"

fun qtruthy :: "qval \<Rightarrow> bool" where
  "qtruthy QUndefined = False"
| "qtruthy (QStr s) = (s \<noteq> [])"
| "qtruthy (QArr xs) = True"
| "qtruthy (QObj kvs) = True"

text \<open>\<open>typeof name === "string"\<close>.\<close>

fun typeof_string :: "qval \<Rightarrow> bool" where
  "typeof_string (QStr s) = True"
| "typeof_string v = False"

fun join :: "string \<Rightarrow> string list \<Rightarrow> string" where
  "join sep [] = []"
| "join sep [x] = x"
| "join sep (x # y # ys) = x @ sep @ join sep (y # ys)"

text \<open>
  JavaScript's \<open>String(x)\<close> on a query value. It throws in the cases described above:
  for an object with a key \<open>toString\<close>, and for an array holding a value whose
  coercion throws. Otherwise a string is itself, an array is its elements joined by
  commas (an undefined element contributes nothing), and an object is
  \<open>[object Object]\<close>.
\<close>

fun ToString_throws :: "qval \<Rightarrow> bool" where
  "ToString_throws (QArr xs) = list_ex ToString_throws xs"
| "ToString_throws (QObj kvs) = (''toString'' \<in> set (map fst kvs))"
| "ToString_throws v = False"

fun ToString :: "qval \<Rightarrow> string" where
  "ToString QUndefined = ''undefined''"
| "ToString (QStr s) = s"
| "ToString (QArr xs) =
     join '','' (map (\<lambda>x. if x = QUndefined then [] else ToString x) xs)"
| "ToString (QObj kvs) = ''[object Object]''"

definition String :: "qval \<Rightarrow> exn + string" where
  "String v =
     (if ToString_throws v then Inl (TypeError ''Cannot convert object to primitive value'')
      else Inr (ToString v))"

text \<open>The string that a value is when \<open>typeof\<close> has found it to be a string.\<close>

fun the_string :: "qval \<Rightarrow> string" where
  "the_string (QStr s) = s"
| "the_string v = []"

text \<open>
  The part of a request the handlers read. The body and the query are taken as parsed
  objects, so that a missing field reads as \<open>undefined\<close>.
\<close>

record request =
  body_name :: json
  query_name :: qval
  param_id :: string

section \<open>The store driver as the controller sees it\<close>

text \<open>An ObjectId is twelve bytes.\<close>

type_synonym objectid = "96 word"

text \<open>
  A user document: \<open>uid\<close> is its \<open>_id\<close>. In the result of a find-and-modify
  method, \<open>value'\<close> is the field \<open>value\<close>.
\<close>

record user =
  uid :: objectid
  name :: json

datatype filter = NameEq string | IdEq objectid

datatype return_document = Before | After

record insert_result =
  acknowledged :: bool
  insertedId :: objectid

record update_result =
  matchedCount :: nat
  modifiedCount :: nat

record modify_result =
  value' :: "user option"

record delete_result =
  deletedCount :: nat

text \<open>
  The controller imports \<open>ObjectId\<close> and \<open>usersCollection\<close> from outside; the
  repository's tests replace the collection by mocks. The handlers are therefore
  written over a driver given as a parameter: the two \<open>ObjectId\<close> functions and the
  six collection methods the controller calls. Each method takes the store state and
  returns the new one with either the rejection (\<open>Inl\<close>) or the result (\<open>Inr\<close>).
  \<open>findOne\<close> yields \<open>None\<close> for \<open>null\<close>; the two find-and-modify methods
  yield \<open>None\<close> for a \<open>null\<close> result and otherwise an object whose \<open>value\<close> is
  the document or \<open>null\<close>.
\<close>

record 's mongodb =
  isValid :: "string \<Rightarrow> bool"
  ObjectId :: "string \<Rightarrow> objectid"
  insertOne :: "json \<Rightarrow> 's \<Rightarrow> (exn + insert_result) \<times> 's"
  findOne :: "filter \<Rightarrow> 's \<Rightarrow> (exn + user option) \<times> 's"
  updateOne :: "filter \<Rightarrow> json \<Rightarrow> 's \<Rightarrow> (exn + update_result) \<times> 's"
  findOneAndUpdate ::
    "filter \<Rightarrow> json \<Rightarrow> return_document \<Rightarrow> 's \<Rightarrow> (exn + modify_result option) \<times> 's"
  findOneAndDelete :: "filter \<Rightarrow> 's \<Rightarrow> (exn + modify_result option) \<times> 's"
  deleteOne :: "filter \<Rightarrow> 's \<Rightarrow> (exn + delete_result) \<times> 's"

section \<open>What a handler does\<close>

text \<open>
  A handler acts on the world in three ways: it calls the collection, it calls
  \<open>res.status(n).json(b)\<close>, and it calls \<open>next(error)\<close>. A run of a handler is
  the list of these events in program order, together with the store state it leaves.
  The response object only records the calls made on it, as the response object of the
  repository's tests does.
\<close>

datatype store_call =
    InsertOne json
  | FindOne filter
  | UpdateOne filter json
  | FindOneAndUpdate filter json return_document
  | FindOneAndDelete filter
  | DeleteOne filter

datatype body =
    Message string
  | MessageUser string user
  | Document user

datatype event =
    Store store_call
  | Res nat body
  | Next exn

type_synonym 's handler = "'s mongodb \<Rightarrow> request \<Rightarrow> 's \<Rightarrow> event list \<times> 's"

definition createUser :: "'s handler" where
  "createUser db req s =
     (let n = body_name req in
      if \<not> truthy n then ([Res 400 (Message ''Name is required'')], s)
      else
        case insertOne db n s of
          (Inl error, s') \<Rightarrow> ([Store (InsertOne n), Next error], s')
        | (Inr result, s') \<Rightarrow>
            if \<not> acknowledged result
            then ([Store (InsertOne n), Res 500 (Message ''Failed to create user'')], s')
            else ([Store (InsertOne n),
                   Res 201 (MessageUser ''User created successfully''
                              \<lparr>uid = insertedId result, name = n\<rparr>)], s'))"

definition getUserByName :: "'s handler" where
  "getUserByName db req s =
     (let n = query_name req in
      if \<not> qtruthy n then ([Res 400 (Message ''Name is required'')], s)
      else
        case String n of
          Inl error \<Rightarrow> ([Next error], s)
        | Inr str \<Rightarrow>
            let q = NameEq str in
            case findOne db q s of
              (Inl error, s') \<Rightarrow> ([Store (FindOne q), Next error], s')
            | (Inr None, s') \<Rightarrow>
                ([Store (FindOne q), Res 404 (Message ''User not found'')], s')
            | (Inr (Some u), s') \<Rightarrow> ([Store (FindOne q), Res 200 (Document u)], s'))"

definition getUserById :: "'s handler" where
  "getUserById db req s =
     (let i = param_id req in
      if \<not> isValid db i then ([Res 400 (Message ''Invalid user ID'')], s)
      else
        let q = IdEq (ObjectId db i) in
        case findOne db q s of
          (Inl error, s') \<Rightarrow> ([Store (FindOne q), Next error], s')
        | (Inr None, s') \<Rightarrow>
            ([Store (FindOne q), Res 404 (Message ''User not found'')], s')
        | (Inr (Some u), s') \<Rightarrow> ([Store (FindOne q), Res 200 (Document u)], s'))"

text \<open>
  \<open>updateUserByName\<close> has no \<open>return\<close> after its 404 response: the call of
  \<open>res.status(200).json\<close> that follows is made whatever \<open>matchedCount\<close> was.
  The filter is built, and \<open>String(oldName)\<close> evaluated, after the validation and before
  the store is called.
\<close>

definition updateUserByName :: "'s handler" where
  "updateUserByName db req s =
     (let newName = body_name req; oldName = query_name req in
      if \<not> qtruthy oldName \<or> \<not> truthy newName
      then ([Res 400 (Message
               ''Both old name (query) and new name (body) are required'')], s)
      else
        case String oldName of
          Inl error \<Rightarrow> ([Next error], s)
        | Inr str \<Rightarrow>
            let q = NameEq str in
            case updateOne db q newName s of
              (Inl error, s') \<Rightarrow> ([Store (UpdateOne q newName), Next error], s')
            | (Inr result, s') \<Rightarrow>
                ([Store (UpdateOne q newName)]
                 @ (if matchedCount result = 0
                    then [Res 404 (Message ''User not found'')] else [])
                 @ [Res 200 (Message ''User updated successfully'')], s'))"

text \<open>
  \<open>updateUserById\<close> first logs the identifier and the name to the console, inside
  its \<open>try\<close>. The log touches neither the response nor the store, but its template
  literal coerces the name to a string: when that throws, the \<open>catch\<close> hands the
  error to \<open>next\<close> and nothing else happens. The identifier is a string already.
  The handler does not test the name.
\<close>

definition updateUserById :: "'s handler" where
  "updateUserById db req s =
     (let i = param_id req; n = body_name req in
      if ToString_throws_json n
      then ([Next (TypeError ''Cannot convert object to primitive value'')], s)
      else if \<not> isValid db i then ([Res 400 (Message ''Invalid user ID'')], s)
      else
        let q = IdEq (ObjectId db i) in
        case findOne db q s of
          (Inl error, s1) \<Rightarrow> ([Store (FindOne q), Next error], s1)
        | (Inr None, s1) \<Rightarrow>
            ([Store (FindOne q), Res 404 (Message ''User not found'')], s1)
        | (Inr (Some existingUser), s1) \<Rightarrow>
            (case findOneAndUpdate db q n After s1 of
               (Inl error, s2) \<Rightarrow>
                 ([Store (FindOne q), Store (FindOneAndUpdate q n After), Next error], s2)
             | (Inr result, s2) \<Rightarrow>
                 ([Store (FindOne q), Store (FindOneAndUpdate q n After),
                   (case result of
                      None \<Rightarrow> Res 404 (Message ''User not found'')
                    | Some r \<Rightarrow>
                        (case value' r of
                           None \<Rightarrow> Res 404 (Message ''User not found'')
                         | Some u \<Rightarrow>
                             Res 200 (MessageUser ''User updated successfully'' u)))],
                  s2)))"

definition deleteUserById :: "'s handler" where
  "deleteUserById db req s =
     (let i = param_id req in
      if \<not> isValid db i then ([Res 400 (Message ''Invalid user ID'')], s)
      else
        let objectId = ObjectId db i; q = IdEq objectId in
        case findOneAndDelete db q s of
          (Inl error, s') \<Rightarrow> ([Store (FindOneAndDelete q), Next error], s')
        | (Inr deleteResult, s') \<Rightarrow>
            ([Store (FindOneAndDelete q),
              (case deleteResult of
                 None \<Rightarrow> Res 404 (Message ''User not found'')
               | Some r \<Rightarrow>
                   (case value' r of
                      None \<Rightarrow> Res 404 (Message ''User not found'')
                    | Some u \<Rightarrow>
                        Res 200 (MessageUser ''User deleted successfully'' u)))],
             s'))"

text \<open>
  In \<open>deleteUserByName\<close> the filter is \<open>{ name }\<close>, with \<open>name\<close> narrowed to a
  string by the \<open>typeof\<close> test: no coercion takes place.
\<close>

definition deleteUserByName :: "'s handler" where
  "deleteUserByName db req s =
     (let n = query_name req in
      if \<not> qtruthy n \<or> \<not> typeof_string n
      then ([Res 400 (Message ''Name query parameter is required'')], s)
      else
        let q = NameEq (the_string n) in
        case deleteOne db q s of
          (Inl error, s') \<Rightarrow> ([Store (DeleteOne q), Next error], s')
        | (Inr result, s') \<Rightarrow>
            if deletedCount result = 0
            then ([Store (DeleteOne q), Res 404 (Message ''User not found'')], s')
            else ([Store (DeleteOne q),
                   Res 200 (Message ''User deleted successfully'')], s'))"

text \<open>The route table of \<open>routes/userRoutes.ts\<close>.\<close>

datatype route =
    POST_users
  | GET_users
  | GET_users_id
  | PUT_users_id
  | PUT_users
  | DELETE_users
  | DELETE_users_id

fun router :: "route \<Rightarrow> 's handler" where
  "router POST_users = createUser"
| "router GET_users = getUserByName"
| "router GET_users_id = getUserById"
| "router PUT_users_id = updateUserById"
| "router PUT_users = updateUserByName"
| "router DELETE_users = deleteUserByName"
| "router DELETE_users_id = deleteUserById"

section \<open>An in-memory store\<close>

text \<open>
  The MongoDB driver is not part of the repository. For the claims that speak about
  the content of the store, and for running the handlers on concrete inputs, the
  collaborator contract of the specification is realised by a store that keeps its
  documents in a list, in insertion order. A claim about the content of the store is
  stated for every driver whose operations in question are the ones defined here.
\<close>

text \<open>The value of a hexadecimal digit, in either letter case.\<close>

definition hex_digit :: "char \<Rightarrow> nat option" where
  "hex_digit c =
     (let k = (of_char c :: nat) in
      if 48 \<le> k \<and> k \<le> 57 then Some (k - 48)
      else if 97 \<le> k \<and> k \<le> 102 then Some (k - 87)
      else if 65 \<le> k \<and> k \<le> 70 then Some (k - 55)
      else None)"

text \<open>
  Modelled from the spec: identifier validity checking of the store
  (\<open>ObjectId.isValid\<close> of the MongoDB driver, which is not in the repository). An
  identifier is syntactically valid when it is 24 hexadecimal digits, as the spec's
  example \<open>60d5f4813d4f3f2d4c9b53e7\<close> is and its example \<open>invalid-id\<close> is not.
\<close>

definition ObjectId_isValid :: "string \<Rightarrow> bool" where
  "ObjectId_isValid i = (length i = 24 \<and> list_all (\<lambda>c. hex_digit c \<noteq> None) i)"

text \<open>
  Modelled from the spec: the identifier a valid string denotes (\<open>new ObjectId(id)\<close> of
  the driver, not in the repository): the twelve bytes its hexadecimal digits spell,
  so that two spellings differing in letter case denote the same identifier.
\<close>

definition ObjectId_new :: "string \<Rightarrow> objectid" where
  "ObjectId_new i =
     word_of_nat
       (foldl (\<lambda>a c. 16 * a + (case hex_digit c of None \<Rightarrow> 0 | Some d \<Rightarrow> d)) 0 i)"

record store =
  docs :: "user list"
  next_id :: objectid

text \<open>
  Modelled from the spec: find-one-by-field-equality of the document store (the
  collection is not in the repository). A filter on the name matches a document whose
  name is exactly that string; a filter on the identifier matches the document with
  that identifier.
\<close>

fun matches :: "filter \<Rightarrow> user \<Rightarrow> bool" where
  "matches (NameEq n) u = (name u = JStr n)"
| "matches (IdEq i) u = (uid u = i)"

text \<open>
  The store acts on the first document that matches: \<open>update_first\<close> rewrites it,
  \<open>delete_first\<close> removes it, and both leave a list without a match as it is.
\<close>

fun update_first :: "('a \<Rightarrow> bool) \<Rightarrow> ('a \<Rightarrow> 'a) \<Rightarrow> 'a list \<Rightarrow> 'a list" where
  "update_first P f [] = []"
| "update_first P f (x # xs) = (if P x then f x # xs else x # update_first P f xs)"

fun delete_first :: "('a \<Rightarrow> bool) \<Rightarrow> 'a list \<Rightarrow> 'a list" where
  "delete_first P [] = []"
| "delete_first P (x # xs) = (if P x then xs else x # delete_first P xs)"

text \<open>
  Modelled from the spec: insert-one of the document store (not in the repository):
  the store assigns a new identifier, keeps the document and acknowledges.
\<close>

definition memory_insertOne :: "json \<Rightarrow> store \<Rightarrow> (exn + insert_result) \<times> store" where
  "memory_insertOne n s =
     (Inr \<lparr>acknowledged = True, insertedId = next_id s\<rparr>,
      s\<lparr>docs := docs s @ [\<lparr>uid = next_id s, name = n\<rparr>], next_id := next_id s + 1\<rparr>)"

text \<open>
  Modelled from the spec: find-one of the document store (not in the repository): the
  first document that matches, and no change of the store.
\<close>

definition memory_findOne :: "filter \<Rightarrow> store \<Rightarrow> (exn + user option) \<times> store" where
  "memory_findOne q s = (Inr (find (matches q) (docs s)), s)"

text \<open>
  Modelled from the spec: update-one-by-filter of the document store (not in the
  repository): the name of the first matching document is set, and the matched and
  modified counts are returned.
\<close>

definition memory_updateOne ::
  "filter \<Rightarrow> json \<Rightarrow> store \<Rightarrow> (exn + update_result) \<times> store" where
  "memory_updateOne q v s =
     (case find (matches q) (docs s) of
        None \<Rightarrow> (Inr \<lparr>matchedCount = 0, modifiedCount = 0\<rparr>, s)
      | Some u \<Rightarrow>
          (Inr \<lparr>matchedCount = 1, modifiedCount = (if name u = v then 0 else 1)\<rparr>,
           s\<lparr>docs := update_first (matches q) (\<lambda>d. d\<lparr>name := v\<rparr>) (docs s)\<rparr>))"

text \<open>
  Modelled from the spec: find-and-update-returning-new-value of the document store
  (not in the repository): as update-one, and the result's value is the matching
  document (after the update when asked so), or nothing when none matches.
\<close>

definition memory_findOneAndUpdate ::
  "filter \<Rightarrow> json \<Rightarrow> return_document \<Rightarrow> store \<Rightarrow> (exn + modify_result option) \<times> store"
where
  "memory_findOneAndUpdate q v rd s =
     (case find (matches q) (docs s) of
        None \<Rightarrow> (Inr (Some \<lparr>value' = None\<rparr>), s)
      | Some u \<Rightarrow>
          (Inr (Some \<lparr>value' = Some (case rd of Before \<Rightarrow> u | After \<Rightarrow> u\<lparr>name := v\<rparr>)\<rparr>),
           s\<lparr>docs := update_first (matches q) (\<lambda>d. d\<lparr>name := v\<rparr>) (docs s)\<rparr>))"

text \<open>
  Modelled from the spec: find-and-delete-returning-old-value of the document store
  (not in the repository): the first matching document is removed and is the
  result's value; nothing is removed and the value is nothing when none matches.
\<close>

definition memory_findOneAndDelete ::
  "filter \<Rightarrow> store \<Rightarrow> (exn + modify_result option) \<times> store" where
  "memory_findOneAndDelete q s =
     (Inr (Some \<lparr>value' = find (matches q) (docs s)\<rparr>),
      s\<lparr>docs := delete_first (matches q) (docs s)\<rparr>)"

text \<open>
  Modelled from the spec: delete-one-by-filter of the document store (not in the
  repository): the first matching document is removed and the number of removed
  documents is returned.
\<close>

definition memory_deleteOne :: "filter \<Rightarrow> store \<Rightarrow> (exn + delete_result) \<times> store" where
  "memory_deleteOne q s =
     (Inr \<lparr>deletedCount = (if find (matches q) (docs s) = None then 0 else 1)\<rparr>,
      s\<lparr>docs := delete_first (matches q) (docs s)\<rparr>)"

definition memory :: "store mongodb" where
  "memory =
     \<lparr>isValid = ObjectId_isValid,
      ObjectId = ObjectId_new,
      insertOne = memory_insertOne,
      findOne = memory_findOne,
      updateOne = memory_updateOne,
      findOneAndUpdate = memory_findOneAndUpdate,
      findOneAndDelete = memory_findOneAndDelete,
      deleteOne = memory_deleteOne\<rparr>"

text \<open>
  Modelled from the spec: a store whose insert is not acknowledged (store
  acknowledgment failure): the in-memory store with an insert-one that reports
  \<open>acknowledged: false\<close>.
\<close>

definition unacknowledged :: "store mongodb" where
  "unacknowledged =
     memory\<lparr>insertOne :=
       (\<lambda>n s. case memory_insertOne n s of
          (Inl e, s') \<Rightarrow> (Inl e, s')
        | (Inr r, s') \<Rightarrow> (Inr (r\<lparr>acknowledged := False\<rparr>), s'))\<rparr>"

definition empty_store :: store where
  "empty_store = \<lparr>docs = [], next_id = 1\<rparr>"

text \<open>A store with two users, for running the handlers.\<close>

definition sample_store :: store where
  "sample_store =
     \<lparr>docs = [\<lparr>uid = 0x60d5f4813d4f3f2d4c9b53e7, name = JStr ''Old Name''\<rparr>,
              \<lparr>uid = 0x60d5f4813d4f3f2d4c9b53e8, name = JStr ''John Doe''\<rparr>],
      next_id = 0x60d5f4813d4f3f2d4c9b53e9\<rparr>"

section \<open>Facts about the in-memory store\<close>

lemma memory_simps:
  "isValid memory = ObjectId_isValid"
  "ObjectId memory = ObjectId_new"
  "insertOne memory = memory_insertOne"
  "findOne memory = memory_findOne"
  "updateOne memory = memory_updateOne"
  "findOneAndUpdate memory = memory_findOneAndUpdate"
  "findOneAndDelete memory = memory_findOneAndDelete"
  "deleteOne memory = memory_deleteOne"
  by (simp_all add: memory_def)

lemma valid_sample_id: "ObjectId_isValid ''60d5f4813d4f3f2d4c9b53e7''"
  by (simp add: ObjectId_isValid_def hex_digit_def)

lemma new_sample_id: "ObjectId_new ''60d5f4813d4f3f2d4c9b53e7'' = 0x60d5f4813d4f3f2d4c9b53e7"
  by (simp add: ObjectId_new_def hex_digit_def)

lemma invalid_sample_id: "\<not> ObjectId_isValid ''invalid-id''"
  by (simp add: ObjectId_isValid_def)

lemma find_holds: "find P xs = Some x \<Longrightarrow> P x \<and> x \<in> set xs"
  by (induction xs) (auto split: if_splits)

lemma find_exists: "(find P xs \<noteq> None) = (\<exists>x\<in>set xs. P x)"
  by (induction xs) auto

lemma find_append_last: "P y \<Longrightarrow> \<exists>x. find P (xs @ [y]) = Some x \<and> P x"
  by (induction xs) auto

lemma delete_first_none: "find P xs = None \<Longrightarrow> delete_first P xs = xs"
  by (induction xs) (auto split: if_splits)

lemma delete_first_length:
  "find P xs = Some x \<Longrightarrow> length (delete_first P xs) + 1 = length xs"
  by (induction xs) (auto split: if_splits)

text \<open>Deleting the first match removes the document that \<open>find\<close> returns.\<close>

lemma find_delete_first:
  "find P xs = Some x \<Longrightarrow> delete_first P xs = remove1 x xs"
proof (induction xs)
  case Nil
  then show ?case by simp
next
  case (Cons y ys)
  show ?case
  proof (cases "P y")
    case True
    with Cons.prems show ?thesis by simp
  next
    case False
    with Cons.prems have f: "find P ys = Some x" by simp
    then have "P x" by (simp add: find_holds)
    with False have "x \<noteq> y" by blast
    with False Cons.IH[OF f] show ?thesis by simp
  qed
qed

text \<open>Updating the first match rewrites one position of the list: the first that matches.\<close>

lemma update_first_index:
  "find P xs = Some x \<Longrightarrow>
   \<exists>i<length xs. xs ! i = x \<and> P x \<and> (\<forall>j<i. \<not> P (xs ! j)) \<and>
      update_first P f xs = xs[i := f x]"
proof (induction xs)
  case Nil
  then show ?case by simp
next
  case (Cons y ys)
  show ?case
  proof (cases "P y")
    case True
    with Cons.prems have "y = x" by simp
    with True show ?thesis by (intro exI[of _ 0]) simp
  next
    case False
    with Cons.prems have "find P ys = Some x" by simp
    from Cons.IH[OF this] obtain i where i: "i < length ys" "ys ! i = x" "P x"
      "\<forall>j<i. \<not> P (ys ! j)" "update_first P f ys = ys[i := f x]" by blast
    have "\<forall>j<Suc i. \<not> P ((y # ys) ! j)"
      using False i(4) by (auto simp: less_Suc_eq_0_disj)
    with i False show ?thesis by (intro exI[of _ "Suc i"]) simp
  qed
qed

section \<open>The claims\<close>

subsection \<open>C1: UpdateByName when nothing matches\<close>

text \<open>
  Claim C1 asks that an UpdateByName request with both names present and no record
  matching the old name fails with NotFound and returns exactly one response, the
  success acknowledgment being sent only when a record matched. The handler does not
  do this. For every driver and every request with both names present (the old name
  coercing to the string \<open>old\<close>), when update-one reports a matched count of zero the
  run is the store call, the 404 response and then the 200 success acknowledgment: two
  responses.
\<close>

theorem updateUserByName_no_match:
  assumes "qtruthy (query_name req)" and "truthy (body_name req)"
    and "String (query_name req) = Inr old"
    and "updateOne db (NameEq old) (body_name req) s = (Inr r, s')"
    and "matchedCount r = 0"
  shows "updateUserByName db req s =
           ([Store (UpdateOne (NameEq old) (body_name req)),
             Res 404 (Message ''User not found''),
             Res 200 (Message ''User updated successfully'')], s')"
  using assms by (simp add: updateUserByName_def)

theorem updateUserByName_no_match_witness:
  "qtruthy (QStr ''Old Name'') \<and> truthy (JStr ''New Name'') \<and>
   String (QStr ''Old Name'') = Inr ''Old Name'' \<and>
   updateOne memory (NameEq ''Old Name'') (JStr ''New Name'') empty_store
     = (Inr \<lparr>matchedCount = 0, modifiedCount = 0\<rparr>, empty_store) \<and>
   updateUserByName memory
       \<lparr>body_name = JStr ''New Name'', query_name = QStr ''Old Name'', param_id = []\<rparr>
       empty_store =
     ([Store (UpdateOne (NameEq ''Old Name'') (JStr ''New Name'')),
       Res 404 (Message ''User not found''),
       Res 200 (Message ''User updated successfully'')], empty_store)"
proof -
  have u: "updateOne memory (NameEq ''Old Name'') (JStr ''New Name'') empty_store
     = (Inr \<lparr>matchedCount = 0, modifiedCount = 0\<rparr>, empty_store)"
    by (simp add: memory_simps memory_updateOne_def empty_store_def)
  have c: "String (QStr ''Old Name'') = Inr ''Old Name''"
    by (simp add: String_def)
  from updateUserByName_no_match
    [of "\<lparr>body_name = JStr ''New Name'', query_name = QStr ''Old Name'', param_id = []\<rparr>"
        "''Old Name''" memory empty_store "\<lparr>matchedCount = 0, modifiedCount = 0\<rparr>"
        empty_store] u c
  show ?thesis by simp
qed

subsection \<open>C2: Create, then FindByName\<close>

text \<open>
  Claim C2: take a driver whose insert-one and find-one are those of the in-memory
  store. For every store state and every non-empty string \<open>n\<close>, Create with name
  \<open>n\<close> answers 201 and leaves the store with one more record, the new one, at the end.
  FindByName with the same \<open>n\<close> on that store issues one find-one, leaves the store
  as it is and answers 200 with a record of the store: the first record whose name is
  \<open>n\<close>. That record need not be the one just created, but its name is \<open>n\<close>.
\<close>

theorem create_then_find:
  assumes "insertOne db = memory_insertOne" and "findOne db = memory_findOne"
    and "n \<noteq> []" and "body_name req = JStr n" and "query_name req' = QStr n"
    and "createUser db req s = (evs, s')"
  shows "evs = [Store (InsertOne (JStr n)),
                Res 201 (MessageUser ''User created successfully''
                           \<lparr>uid = next_id s, name = JStr n\<rparr>)] \<and>
         s' = s\<lparr>docs := docs s @ [\<lparr>uid = next_id s, name = JStr n\<rparr>],
                next_id := next_id s + 1\<rparr> \<and>
         (\<exists>i<length (docs s').
            name (docs s' ! i) = JStr n \<and>
            (\<forall>j<i. name (docs s' ! j) \<noteq> JStr n) \<and>
            docs s' ! i \<in> set (docs s') \<and>
            getUserByName db req' s' =
              ([Store (FindOne (NameEq n)), Res 200 (Document (docs s' ! i))], s'))"
proof -
  from assms have evs: "evs = [Store (InsertOne (JStr n)),
                Res 201 (MessageUser ''User created successfully''
                           \<lparr>uid = next_id s, name = JStr n\<rparr>)]"
    and s': "s' = s\<lparr>docs := docs s @ [\<lparr>uid = next_id s, name = JStr n\<rparr>],
                    next_id := next_id s + 1\<rparr>"
    by (auto simp: createUser_def Let_def memory_insertOne_def)
  have "matches (NameEq n) \<lparr>uid = next_id s, name = JStr n\<rparr>" by simp
  from find_append_last[of "matches (NameEq n)", OF this, of "docs s"] s'
  obtain u where u: "find (matches (NameEq n)) (docs s') = Some u"
    by auto
  then obtain i where i: "i < length (docs s')" "matches (NameEq n) (docs s' ! i)"
    "u = docs s' ! i" "\<forall>j<i. \<not> matches (NameEq n) (docs s' ! j)"
    unfolding find_Some_iff by blast
  from u i(3) assms(2,3,5) have g: "getUserByName db req' s' =
      ([Store (FindOne (NameEq n)), Res 200 (Document (docs s' ! i))], s')"
    by (simp add: getUserByName_def Let_def String_def memory_findOne_def)
  from i(1) have "docs s' ! i \<in> set (docs s')" by simp
  with i g have "\<exists>i<length (docs s').
            name (docs s' ! i) = JStr n \<and>
            (\<forall>j<i. name (docs s' ! j) \<noteq> JStr n) \<and>
            docs s' ! i \<in> set (docs s') \<and>
            getUserByName db req' s' =
              ([Store (FindOne (NameEq n)), Res 200 (Document (docs s' ! i))], s')"
    by auto
  with evs s' show ?thesis by blast
qed

theorem create_then_find_witness:
  "insertOne memory = memory_insertOne \<and> findOne memory = memory_findOne \<and>
   ''John Doe'' \<noteq> [] \<and>
   createUser memory
     \<lparr>body_name = JStr ''John Doe'', query_name = QUndefined, param_id = []\<rparr> sample_store =
     ([Store (InsertOne (JStr ''John Doe'')),
       Res 201 (MessageUser ''User created successfully''
                  \<lparr>uid = 0x60d5f4813d4f3f2d4c9b53e9, name = JStr ''John Doe''\<rparr>)],
      \<lparr>docs = [\<lparr>uid = 0x60d5f4813d4f3f2d4c9b53e7, name = JStr ''Old Name''\<rparr>,
               \<lparr>uid = 0x60d5f4813d4f3f2d4c9b53e8, name = JStr ''John Doe''\<rparr>,
               \<lparr>uid = 0x60d5f4813d4f3f2d4c9b53e9, name = JStr ''John Doe''\<rparr>],
       next_id = 0x60d5f4813d4f3f2d4c9b53ea\<rparr>) \<and>
   getUserByName memory
       \<lparr>body_name = JUndefined, query_name = QStr ''John Doe'', param_id = []\<rparr>
       \<lparr>docs = [\<lparr>uid = 0x60d5f4813d4f3f2d4c9b53e7, name = JStr ''Old Name''\<rparr>,
                \<lparr>uid = 0x60d5f4813d4f3f2d4c9b53e8, name = JStr ''John Doe''\<rparr>,
                \<lparr>uid = 0x60d5f4813d4f3f2d4c9b53e9, name = JStr ''John Doe''\<rparr>],
        next_id = 0x60d5f4813d4f3f2d4c9b53ea\<rparr> =
     ([Store (FindOne (NameEq ''John Doe'')),
       Res 200 (Document \<lparr>uid = 0x60d5f4813d4f3f2d4c9b53e8, name = JStr ''John Doe''\<rparr>)],
      \<lparr>docs = [\<lparr>uid = 0x60d5f4813d4f3f2d4c9b53e7, name = JStr ''Old Name''\<rparr>,
               \<lparr>uid = 0x60d5f4813d4f3f2d4c9b53e8, name = JStr ''John Doe''\<rparr>,
               \<lparr>uid = 0x60d5f4813d4f3f2d4c9b53e9, name = JStr ''John Doe''\<rparr>],
       next_id = 0x60d5f4813d4f3f2d4c9b53ea\<rparr>) \<and>
   (\<exists>i<3. name ([\<lparr>uid = 0x60d5f4813d4f3f2d4c9b53e7 :: objectid, name = JStr ''Old Name''\<rparr>,
                   \<lparr>uid = 0x60d5f4813d4f3f2d4c9b53e8, name = JStr ''John Doe''\<rparr>,
                   \<lparr>uid = 0x60d5f4813d4f3f2d4c9b53e9, name = JStr ''John Doe''\<rparr>] ! i)
            = JStr ''John Doe'')"
proof -
  let ?req = "\<lparr>body_name = JStr ''John Doe'', query_name = QUndefined, param_id = []\<rparr>"
  let ?req' = "\<lparr>body_name = JUndefined, query_name = QStr ''John Doe'', param_id = []\<rparr>"
  let ?s' = "\<lparr>docs = [\<lparr>uid = 0x60d5f4813d4f3f2d4c9b53e7, name = JStr ''Old Name''\<rparr>,
               \<lparr>uid = 0x60d5f4813d4f3f2d4c9b53e8, name = JStr ''John Doe''\<rparr>,
               \<lparr>uid = 0x60d5f4813d4f3f2d4c9b53e9, name = JStr ''John Doe''\<rparr>],
       next_id = 0x60d5f4813d4f3f2d4c9b53ea :: objectid\<rparr>"
  have c: "createUser memory ?req sample_store =
     ([Store (InsertOne (JStr ''John Doe'')),
       Res 201 (MessageUser ''User created successfully''
                  \<lparr>uid = 0x60d5f4813d4f3f2d4c9b53e9, name = JStr ''John Doe''\<rparr>)], ?s')"
    by (simp add: createUser_def Let_def memory_simps memory_insertOne_def sample_store_def)
  have g: "getUserByName memory ?req' ?s' =
     ([Store (FindOne (NameEq ''John Doe'')),
       Res 200 (Document \<lparr>uid = 0x60d5f4813d4f3f2d4c9b53e8, name = JStr ''John Doe''\<rparr>)],
      ?s')"
    by (simp add: getUserByName_def Let_def String_def memory_simps memory_findOne_def)
  have n: "''John Doe'' \<noteq> []" by simp
  have b: "body_name ?req = JStr ''John Doe''" by simp
  have q: "query_name ?req' = QStr ''John Doe''" by simp
  from create_then_find[OF memory_simps(3) memory_simps(4) n b q c]
  have "\<exists>i<length (docs ?s'). name (docs ?s' ! i) = JStr ''John Doe''"
    by blast
  then have "\<exists>i<3. name ([\<lparr>uid = 0x60d5f4813d4f3f2d4c9b53e7 :: objectid, name = JStr ''Old Name''\<rparr>,
                   \<lparr>uid = 0x60d5f4813d4f3f2d4c9b53e8, name = JStr ''John Doe''\<rparr>,
                   \<lparr>uid = 0x60d5f4813d4f3f2d4c9b53e9, name = JStr ''John Doe''\<rparr>] ! i)
            = JStr ''John Doe''"
    by (simp add: numeral_3_eq_3)
  with c g n memory_simps(3) memory_simps(4) show ?thesis by blast
qed

subsection \<open>C3: an invalid identifier\<close>

text \<open>
  Claim C3: when the identifier of the request is not a valid one, FindById and
  DeleteById both answer 400 and nothing else. This holds for every driver and every
  store state: the run has no store call and leaves the state as it was.
\<close>

theorem invalid_id_rejected:
  "\<not> isValid db (param_id req) \<Longrightarrow>
   getUserById db req s = ([Res 400 (Message ''Invalid user ID'')], s) \<and>
   deleteUserById db req s = ([Res 400 (Message ''Invalid user ID'')], s)"
  by (simp add: getUserById_def deleteUserById_def)

theorem invalid_id_rejected_witness:
  "\<not> isValid memory ''invalid-id'' \<and>
   getUserById memory
       \<lparr>body_name = JUndefined, query_name = QUndefined, param_id = ''invalid-id''\<rparr>
       sample_store = ([Res 400 (Message ''Invalid user ID'')], sample_store) \<and>
   deleteUserById memory
       \<lparr>body_name = JUndefined, query_name = QUndefined, param_id = ''invalid-id''\<rparr>
       empty_store = ([Res 400 (Message ''Invalid user ID'')], empty_store)"
proof -
  have i: "\<not> isValid memory ''invalid-id''"
    by (simp add: memory_simps invalid_sample_id)
  from invalid_id_rejected
    [of memory "\<lparr>body_name = JUndefined, query_name = QUndefined, param_id = ''invalid-id''\<rparr>"
        sample_store]
    invalid_id_rejected
    [of memory "\<lparr>body_name = JUndefined, query_name = QUndefined, param_id = ''invalid-id''\<rparr>"
        empty_store] i
  show ?thesis by simp
qed

subsection \<open>C4: UpdateById\<close>



text \<open>
  When the name cannot be logged, the handler ends in its \<open>catch\<close> before the lookup.
\<close>

lemma updateUserById_log_throws:
  "ToString_throws_json (body_name req) \<Longrightarrow>
   updateUserById db req s =
     ([Next (TypeError ''Cannot convert object to primitive value'')], s)"
  by (simp add: updateUserById_def Let_def)

subsection \<open>C5: DeleteByName\<close>

text \<open>
  Claim C5: take a driver whose delete-one is that of the in-memory store, and a
  request whose name is a non-empty string \<open>n\<close>. If some record has the name \<open>n\<close>,
  one record of that name is removed, the store holds exactly one record fewer, and
  the answer is 200 with a message and no record. If no record has the name, the store
  is unchanged and the answer is 404.
\<close>

theorem deleteUserByName_count:
  assumes "deleteOne db = memory_deleteOne"
    and "query_name req = QStr n" and "n \<noteq> []"
    and "deleteUserByName db req s = (evs, s')"
  shows "if \<exists>u\<in>set (docs s). name u = JStr n
         then evs = [Store (DeleteOne (NameEq n)),
                     Res 200 (Message ''User deleted successfully'')] \<and>
              (\<exists>u\<in>set (docs s). name u = JStr n \<and> s' = s\<lparr>docs := remove1 u (docs s)\<rparr>) \<and>
              length (docs s') + 1 = length (docs s)
         else evs = [Store (DeleteOne (NameEq n)), Res 404 (Message ''User not found'')] \<and>
              s' = s"
proof (cases "find (matches (NameEq n)) (docs s)")
  case None
  then have "\<not> (\<exists>u\<in>set (docs s). name u = JStr n)"
    using find_exists[of "matches (NameEq n)" "docs s"] by auto
  moreover from None assms
  have "evs = [Store (DeleteOne (NameEq n)), Res 404 (Message ''User not found'')] \<and> s' = s"
    by (auto simp: deleteUserByName_def Let_def memory_deleteOne_def delete_first_none)
  ultimately show ?thesis by simp
next
  case (Some u)
  from find_holds[OF Some] have u: "u \<in> set (docs s)" "name u = JStr n" by auto
  from Some assms
  have evs: "evs = [Store (DeleteOne (NameEq n)),
                    Res 200 (Message ''User deleted successfully'')]"
    and s': "s' = s\<lparr>docs := delete_first (matches (NameEq n)) (docs s)\<rparr>"
    by (auto simp: deleteUserByName_def Let_def memory_deleteOne_def)
  from s' find_delete_first[OF Some] have r: "s' = s\<lparr>docs := remove1 u (docs s)\<rparr>"
    by simp
  from s' delete_first_length[OF Some] have "length (docs s') + 1 = length (docs s)"
    by simp
  with u evs r show ?thesis by auto
qed

theorem deleteUserByName_count_witness:
  "deleteOne memory = memory_deleteOne \<and>
   ''John Doe'' \<noteq> [] \<and>
   (\<exists>u\<in>set (docs sample_store). name u = JStr ''John Doe'') \<and>
   deleteUserByName memory
       \<lparr>body_name = JUndefined, query_name = QStr ''John Doe'', param_id = []\<rparr>
       sample_store =
     ([Store (DeleteOne (NameEq ''John Doe'')),
       Res 200 (Message ''User deleted successfully'')],
      \<lparr>docs = [\<lparr>uid = 0x60d5f4813d4f3f2d4c9b53e7, name = JStr ''Old Name''\<rparr>],
       next_id = 0x60d5f4813d4f3f2d4c9b53e9\<rparr>) \<and>
   length (docs \<lparr>docs = [\<lparr>uid = 0x60d5f4813d4f3f2d4c9b53e7, name = JStr ''Old Name''\<rparr>],
                 next_id = 0x60d5f4813d4f3f2d4c9b53e9 :: objectid\<rparr>) + 1
     = length (docs sample_store) \<and>
   \<not> (\<exists>u\<in>set (docs empty_store). name u = JStr ''John Doe'') \<and>
   deleteUserByName memory
       \<lparr>body_name = JUndefined, query_name = QStr ''John Doe'', param_id = []\<rparr>
       empty_store =
     ([Store (DeleteOne (NameEq ''John Doe'')), Res 404 (Message ''User not found'')],
      empty_store)"
proof -
  let ?req = "\<lparr>body_name = JUndefined, query_name = QStr ''John Doe'', param_id = []\<rparr>"
  let ?s' = "\<lparr>docs = [\<lparr>uid = 0x60d5f4813d4f3f2d4c9b53e7, name = JStr ''Old Name''\<rparr>],
              next_id = 0x60d5f4813d4f3f2d4c9b53e9 :: objectid\<rparr>"
  have q: "query_name ?req = QStr ''John Doe''" by simp
  have n: "''John Doe'' \<noteq> []" by simp
  have ex: "\<exists>u\<in>set (docs sample_store). name u = JStr ''John Doe''"
    by (simp add: sample_store_def)
  have nex: "\<not> (\<exists>u\<in>set (docs empty_store). name u = JStr ''John Doe'')"
    by (simp add: empty_store_def)
  have c: "deleteUserByName memory ?req sample_store =
     ([Store (DeleteOne (NameEq ''John Doe'')),
       Res 200 (Message ''User deleted successfully'')], ?s')"
    by (simp add: deleteUserByName_def Let_def memory_simps memory_deleteOne_def
        sample_store_def)
  obtain evs t where d: "deleteUserByName memory ?req empty_store = (evs, t)"
    by (cases "deleteUserByName memory ?req empty_store")
  have l: "length (docs ?s') + 1 = length (docs sample_store)"
    using ex deleteUserByName_count[OF memory_simps(8) q n c] by (simp only: if_P if_True)
  have "evs = [Store (DeleteOne (NameEq ''John Doe'')), Res 404 (Message ''User not found'')]
        \<and> t = empty_store"
    using nex deleteUserByName_count[OF memory_simps(8) q n d] by (simp only: if_not_P if_False)
  with d have e: "deleteUserByName memory ?req empty_store =
     ([Store (DeleteOne (NameEq ''John Doe'')), Res 404 (Message ''User not found'')],
      empty_store)"
    by simp
  from n ex c l nex e memory_simps(8) show ?thesis by blast
qed

subsection \<open>C6: DeleteById\<close>

text \<open>
  Claim C6: take a driver whose find-and-delete is that of the in-memory store, and a
  request whose identifier the driver accepts as valid. If a record with that
  identifier exists, the handler issues one find-and-delete, the record is removed from
  the store, and the answer is 200 with the record as it was. If none exists, the
  answer is 404 and the store is unchanged.
\<close>

theorem deleteUserById_removes:
  assumes "findOneAndDelete db = memory_findOneAndDelete"
    and "isValid db (param_id req)"
    and "oid = ObjectId db (param_id req)"
  shows "if \<forall>u\<in>set (docs s). uid u \<noteq> oid
         then deleteUserById db req s =
                ([Store (FindOneAndDelete (IdEq oid)), Res 404 (Message ''User not found'')], s)
         else \<exists>u\<in>set (docs s).
                uid u = oid \<and>
                deleteUserById db req s =
                  ([Store (FindOneAndDelete (IdEq oid)),
                    Res 200 (MessageUser ''User deleted successfully'' u)],
                   s\<lparr>docs := remove1 u (docs s)\<rparr>)"
proof (cases "find (matches (IdEq oid)) (docs s)")
  case None
  then have "\<forall>u\<in>set (docs s). uid u \<noteq> oid"
    using find_exists[of "matches (IdEq oid)" "docs s"] by auto
  moreover from None assms
  have "deleteUserById db req s =
          ([Store (FindOneAndDelete (IdEq oid)), Res 404 (Message ''User not found'')], s)"
    by (simp add: deleteUserById_def Let_def memory_findOneAndDelete_def
        delete_first_none)
  ultimately show ?thesis by simp
next
  case (Some u)
  then have ex: "\<not> (\<forall>u\<in>set (docs s). uid u \<noteq> oid)"
    using find_exists[of "matches (IdEq oid)" "docs s"] by auto
  from find_holds[OF Some] have u: "uid u = oid" "u \<in> set (docs s)" by auto
  from Some assms
  have "deleteUserById db req s =
          ([Store (FindOneAndDelete (IdEq oid)),
            Res 200 (MessageUser ''User deleted successfully'' u)],
           s\<lparr>docs := remove1 u (docs s)\<rparr>)"
    by (simp add: deleteUserById_def Let_def memory_findOneAndDelete_def
        find_delete_first)
  with u ex show ?thesis by auto
qed

theorem deleteUserById_removes_witness:
  "findOneAndDelete memory = memory_findOneAndDelete \<and>
   isValid memory ''60d5f4813d4f3f2d4c9b53e7'' \<and>
   ObjectId memory ''60d5f4813d4f3f2d4c9b53e7'' = 0x60d5f4813d4f3f2d4c9b53e7 \<and>
   deleteUserById memory
       \<lparr>body_name = JUndefined, query_name = QUndefined,
        param_id = ''60d5f4813d4f3f2d4c9b53e7''\<rparr> empty_store =
     ([Store (FindOneAndDelete (IdEq 0x60d5f4813d4f3f2d4c9b53e7)),
       Res 404 (Message ''User not found'')], empty_store) \<and>
   (\<exists>u\<in>set (docs sample_store).
      uid u = 0x60d5f4813d4f3f2d4c9b53e7 \<and>
      deleteUserById memory
          \<lparr>body_name = JUndefined, query_name = QUndefined,
           param_id = ''60d5f4813d4f3f2d4c9b53e7''\<rparr> sample_store =
        ([Store (FindOneAndDelete (IdEq 0x60d5f4813d4f3f2d4c9b53e7)),
          Res 200 (MessageUser ''User deleted successfully'' u)],
         sample_store\<lparr>docs := remove1 u (docs sample_store)\<rparr>)) \<and>
   deleteUserById memory
       \<lparr>body_name = JUndefined, query_name = QUndefined,
        param_id = ''60d5f4813d4f3f2d4c9b53e7''\<rparr> sample_store =
     ([Store (FindOneAndDelete (IdEq 0x60d5f4813d4f3f2d4c9b53e7)),
       Res 200 (MessageUser ''User deleted successfully''
                  \<lparr>uid = 0x60d5f4813d4f3f2d4c9b53e7, name = JStr ''Old Name''\<rparr>)],
      \<lparr>docs = [\<lparr>uid = 0x60d5f4813d4f3f2d4c9b53e8, name = JStr ''John Doe''\<rparr>],
       next_id = 0x60d5f4813d4f3f2d4c9b53e9\<rparr>)"
proof -
  let ?req = "\<lparr>body_name = JUndefined, query_name = QUndefined,
                param_id = ''60d5f4813d4f3f2d4c9b53e7''\<rparr>"
  have v: "isValid memory (param_id ?req)"
    by (simp add: memory_simps valid_sample_id)
  have o: "0x60d5f4813d4f3f2d4c9b53e7 = ObjectId memory (param_id ?req)"
    by (simp add: memory_simps new_sample_id)
  have e: "\<forall>u\<in>set (docs empty_store). uid u \<noteq> 0x60d5f4813d4f3f2d4c9b53e7"
    by (simp add: empty_store_def)
  have s: "\<not> (\<forall>u\<in>set (docs sample_store). uid u \<noteq> 0x60d5f4813d4f3f2d4c9b53e7)"
    by (simp add: sample_store_def)
  have a: "deleteUserById memory ?req empty_store =
     ([Store (FindOneAndDelete (IdEq 0x60d5f4813d4f3f2d4c9b53e7)),
       Res 404 (Message ''User not found'')], empty_store)"
    using e deleteUserById_removes[OF memory_simps(7) v o, of empty_store]
    by (simp only: if_P if_True)
  have b: "\<exists>u\<in>set (docs sample_store).
      uid u = 0x60d5f4813d4f3f2d4c9b53e7 \<and>
      deleteUserById memory ?req sample_store =
        ([Store (FindOneAndDelete (IdEq 0x60d5f4813d4f3f2d4c9b53e7)),
          Res 200 (MessageUser ''User deleted successfully'' u)],
         sample_store\<lparr>docs := remove1 u (docs sample_store)\<rparr>)"
    using s deleteUserById_removes[OF memory_simps(7) v o, of sample_store]
    by (simp only: if_not_P if_False)
  have c: "deleteUserById memory ?req sample_store =
     ([Store (FindOneAndDelete (IdEq 0x60d5f4813d4f3f2d4c9b53e7)),
       Res 200 (MessageUser ''User deleted successfully''
                  \<lparr>uid = 0x60d5f4813d4f3f2d4c9b53e7, name = JStr ''Old Name''\<rparr>)],
      \<lparr>docs = [\<lparr>uid = 0x60d5f4813d4f3f2d4c9b53e8, name = JStr ''John Doe''\<rparr>],
       next_id = 0x60d5f4813d4f3f2d4c9b53e9\<rparr>)"
    by (simp add: deleteUserById_def Let_def memory_simps memory_findOneAndDelete_def
        sample_store_def valid_sample_id new_sample_id)
  from v o[symmetric] a b c memory_simps(7) show ?thesis by simp
qed

subsection \<open>C7: Create, validation and success\<close>

text \<open>
  Claim C7: for every driver and every Create request. When the name is absent or
  empty (in general: when JavaScript's \<open>!name\<close> holds, which for a string means
  empty), the answer is 400, no store call is made and the state is unchanged.
  Otherwise, when insert-one returns an acknowledged result, the answer is 201 with the
  identifier the store assigned and the name that was given.
\<close>

theorem createUser_validates_then_inserts:
  "(\<not> truthy (body_name req) \<longrightarrow>
      createUser db req s = ([Res 400 (Message ''Name is required'')], s)) \<and>
   (truthy (body_name req) \<and> insertOne db (body_name req) s = (Inr r, s') \<and> acknowledged r \<longrightarrow>
      createUser db req s =
        ([Store (InsertOne (body_name req)),
          Res 201 (MessageUser ''User created successfully''
                     \<lparr>uid = insertedId r, name = body_name req\<rparr>)], s'))"
  by (simp add: createUser_def Let_def)

theorem createUser_validates_then_inserts_witness:
  "\<not> truthy JUndefined \<and> \<not> truthy (JStr []) \<and>
   createUser memory \<lparr>body_name = JUndefined, query_name = QUndefined, param_id = []\<rparr>
       sample_store = ([Res 400 (Message ''Name is required'')], sample_store) \<and>
   createUser memory \<lparr>body_name = JStr [], query_name = QUndefined, param_id = []\<rparr>
       sample_store = ([Res 400 (Message ''Name is required'')], sample_store) \<and>
   truthy (JStr ''John Doe'') \<and>
   insertOne memory (JStr ''John Doe'') empty_store =
     (Inr \<lparr>acknowledged = True, insertedId = 1\<rparr>,
      \<lparr>docs = [\<lparr>uid = 1, name = JStr ''John Doe''\<rparr>], next_id = 2\<rparr>) \<and>
   createUser memory \<lparr>body_name = JStr ''John Doe'', query_name = QUndefined, param_id = []\<rparr>
       empty_store =
     ([Store (InsertOne (JStr ''John Doe'')),
       Res 201 (MessageUser ''User created successfully''
                  \<lparr>uid = 1, name = JStr ''John Doe''\<rparr>)],
      \<lparr>docs = [\<lparr>uid = 1, name = JStr ''John Doe''\<rparr>], next_id = 2\<rparr>)"
proof -
  have i: "insertOne memory (JStr ''John Doe'') empty_store =
     (Inr \<lparr>acknowledged = True, insertedId = 1\<rparr>,
      \<lparr>docs = [\<lparr>uid = 1, name = JStr ''John Doe''\<rparr>], next_id = 2\<rparr>)"
    by (simp add: memory_simps memory_insertOne_def empty_store_def)
  from createUser_validates_then_inserts
    [of "\<lparr>body_name = JUndefined, query_name = QUndefined, param_id = []\<rparr>"
        memory sample_store]
    createUser_validates_then_inserts
    [of "\<lparr>body_name = JStr [], query_name = QUndefined, param_id = []\<rparr>"
        memory sample_store]
    createUser_validates_then_inserts
    [of "\<lparr>body_name = JStr ''John Doe'', query_name = QUndefined, param_id = []\<rparr>"
        memory empty_store "\<lparr>acknowledged = True, insertedId = 1\<rparr>"
        "\<lparr>docs = [\<lparr>uid = 1, name = JStr ''John Doe''\<rparr>], next_id = 2\<rparr>"] i
  show ?thesis by simp
qed

subsection \<open>C8: Create when the insert is not acknowledged\<close>

text \<open>
  Claim C8: for every driver and every Create request with a name that passes
  validation, when insert-one returns a result that is not acknowledged the answer is
  500 with a message only: no record is returned.
\<close>

theorem createUser_unacknowledged:
  "truthy (body_name req) \<Longrightarrow> insertOne db (body_name req) s = (Inr r, s') \<Longrightarrow>
   \<not> acknowledged r \<Longrightarrow>
   createUser db req s =
     ([Store (InsertOne (body_name req)), Res 500 (Message ''Failed to create user'')], s')"
  by (simp add: createUser_def)

theorem createUser_unacknowledged_witness:
  "truthy (JStr ''John Doe'') \<and>
   insertOne unacknowledged (JStr ''John Doe'') empty_store =
     (Inr \<lparr>acknowledged = False, insertedId = 1\<rparr>,
      \<lparr>docs = [\<lparr>uid = 1, name = JStr ''John Doe''\<rparr>], next_id = 2\<rparr>) \<and>
   \<not> acknowledged \<lparr>acknowledged = False, insertedId = 1 :: objectid\<rparr> \<and>
   createUser unacknowledged
       \<lparr>body_name = JStr ''John Doe'', query_name = QUndefined, param_id = []\<rparr> empty_store =
     ([Store (InsertOne (JStr ''John Doe'')), Res 500 (Message ''Failed to create user'')],
      \<lparr>docs = [\<lparr>uid = 1, name = JStr ''John Doe''\<rparr>], next_id = 2\<rparr>)"
proof -
  have i: "insertOne unacknowledged (JStr ''John Doe'') empty_store =
     (Inr \<lparr>acknowledged = False, insertedId = 1\<rparr>,
      \<lparr>docs = [\<lparr>uid = 1, name = JStr ''John Doe''\<rparr>], next_id = 2\<rparr>)"
    by (simp add: unacknowledged_def memory_insertOne_def empty_store_def)
  from createUser_unacknowledged
    [of "\<lparr>body_name = JStr ''John Doe'', query_name = QUndefined, param_id = []\<rparr>"
        unacknowledged empty_store "\<lparr>acknowledged = False, insertedId = 1\<rparr>"
        "\<lparr>docs = [\<lparr>uid = 1, name = JStr ''John Doe''\<rparr>], next_id = 2\<rparr>"] i
  show ?thesis by simp
qed

subsection \<open>C9: UpdateByName when a record matches\<close>

text \<open>
  Claim C9: take a driver whose update-one is that of the in-memory store. When some
  record has the old name (a non-empty string) and the new name differs from it,
  UpdateByName answers 200 once and changes one position of the store: the record
  there gets the new name and keeps its identifier, and the record at every other
  position is the one that was there. With the old name \<open>Old Name\<close> and the new name
  \<open>New Name\<close> this is the claim as written.
\<close>

theorem updateUserByName_frame:
  assumes "updateOne db = memory_updateOne"
    and "query_name req = QStr old" and "old \<noteq> []"
    and "truthy (body_name req)" and "body_name req \<noteq> JStr old"
    and "\<exists>u\<in>set (docs s). name u = JStr old"
    and "updateUserByName db req s = (evs, s')"
  shows "evs = [Store (UpdateOne (NameEq old) (body_name req)),
                Res 200 (Message ''User updated successfully'')] \<and>
         (\<exists>i<length (docs s).
            name (docs s ! i) = JStr old \<and>
            length (docs s') = length (docs s) \<and>
            name (docs s' ! i) = body_name req \<and>
            name (docs s' ! i) \<noteq> name (docs s ! i) \<and>
            uid (docs s' ! i) = uid (docs s ! i) \<and>
            (\<forall>j<length (docs s). j \<noteq> i \<longrightarrow> docs s' ! j = docs s ! j))"
proof -
  from assms(6) obtain u where Some: "find (matches (NameEq old)) (docs s) = Some u"
    using find_exists[of "matches (NameEq old)" "docs s"] by auto
  from update_first_index[OF Some, of "\<lambda>d. d\<lparr>name := body_name req\<rparr>"]
  obtain i where i: "i < length (docs s)" "docs s ! i = u" "matches (NameEq old) u"
    "update_first (matches (NameEq old)) (\<lambda>d. d\<lparr>name := body_name req\<rparr>) (docs s)
       = (docs s)[i := u\<lparr>name := body_name req\<rparr>]"
    by blast
  from Some assms i(4)
  have evs: "evs = [Store (UpdateOne (NameEq old) (body_name req)),
                Res 200 (Message ''User updated successfully'')]"
    and s': "s' = s\<lparr>docs := (docs s)[i := u\<lparr>name := body_name req\<rparr>]\<rparr>"
    by (auto simp: updateUserByName_def Let_def String_def memory_updateOne_def)
  from i(1-3) assms(5) s' have "name (docs s ! i) = JStr old \<and>
            length (docs s') = length (docs s) \<and>
            name (docs s' ! i) = body_name req \<and>
            name (docs s' ! i) \<noteq> name (docs s ! i) \<and>
            uid (docs s' ! i) = uid (docs s ! i) \<and>
            (\<forall>j<length (docs s). j \<noteq> i \<longrightarrow> docs s' ! j = docs s ! j)"
    by auto
  with i(1) evs show ?thesis by blast
qed

theorem updateUserByName_frame_witness:
  "updateOne memory = memory_updateOne \<and>
   ''Old Name'' \<noteq> [] \<and> truthy (JStr ''New Name'') \<and> JStr ''New Name'' \<noteq> JStr ''Old Name'' \<and>
   (\<exists>u\<in>set (docs sample_store). name u = JStr ''Old Name'') \<and>
   updateUserByName memory
       \<lparr>body_name = JStr ''New Name'', query_name = QStr ''Old Name'', param_id = []\<rparr>
       sample_store =
     ([Store (UpdateOne (NameEq ''Old Name'') (JStr ''New Name'')),
       Res 200 (Message ''User updated successfully'')],
      \<lparr>docs = [\<lparr>uid = 0x60d5f4813d4f3f2d4c9b53e7, name = JStr ''New Name''\<rparr>,
               \<lparr>uid = 0x60d5f4813d4f3f2d4c9b53e8, name = JStr ''John Doe''\<rparr>],
       next_id = 0x60d5f4813d4f3f2d4c9b53e9\<rparr>) \<and>
   (\<exists>i<length (docs sample_store).
      name (docs sample_store ! i) = JStr ''Old Name'' \<and>
      uid ([\<lparr>uid = 0x60d5f4813d4f3f2d4c9b53e7, name = JStr ''New Name''\<rparr>,
            \<lparr>uid = 0x60d5f4813d4f3f2d4c9b53e8 :: objectid, name = JStr ''John Doe''\<rparr>] ! i)
        = uid (docs sample_store ! i))"
proof -
  let ?req = "\<lparr>body_name = JStr ''New Name'', query_name = QStr ''Old Name'', param_id = []\<rparr>"
  let ?s' = "\<lparr>docs = [\<lparr>uid = 0x60d5f4813d4f3f2d4c9b53e7, name = JStr ''New Name''\<rparr>,
               \<lparr>uid = 0x60d5f4813d4f3f2d4c9b53e8, name = JStr ''John Doe''\<rparr>],
       next_id = 0x60d5f4813d4f3f2d4c9b53e9 :: objectid\<rparr>"
  have q: "query_name ?req = QStr ''Old Name''" by simp
  have n: "''Old Name'' \<noteq> []" by simp
  have t: "truthy (body_name ?req)" by simp
  have d: "body_name ?req \<noteq> JStr ''Old Name''" by simp
  have ex: "\<exists>u\<in>set (docs sample_store). name u = JStr ''Old Name''"
    by (simp add: sample_store_def)
  have c: "updateUserByName memory ?req sample_store =
     ([Store (UpdateOne (NameEq ''Old Name'') (JStr ''New Name'')),
       Res 200 (Message ''User updated successfully'')], ?s')"
    by (simp add: updateUserByName_def Let_def String_def memory_simps memory_updateOne_def
        sample_store_def)
  from updateUserByName_frame[OF memory_simps(5) q n t d ex c]
  have "\<exists>i<length (docs sample_store).
      name (docs sample_store ! i) = JStr ''Old Name'' \<and>
      uid (docs ?s' ! i) = uid (docs sample_store ! i)"
    by blast
  then have "\<exists>i<length (docs sample_store).
      name (docs sample_store ! i) = JStr ''Old Name'' \<and>
      uid ([\<lparr>uid = 0x60d5f4813d4f3f2d4c9b53e7, name = JStr ''New Name''\<rparr>,
            \<lparr>uid = 0x60d5f4813d4f3f2d4c9b53e8 :: objectid, name = JStr ''John Doe''\<rparr>] ! i)
        = uid (docs sample_store ! i)"
    by simp
  with n ex c memory_simps(5) show ?thesis by simp
qed

subsection \<open>C10: validation comes before the store\<close>

text \<open>
  Claim C10: for each of the seven routes, every driver, every request and every store
  state, if the run contains a response with status 400 then that response is the whole
  run: no store call was made, nothing else was sent, and the store state is the one the
  handler started from.
\<close>

theorem validation_precedes_store:
  assumes "router r db req s = (evs, s')" and "Res 400 b \<in> set evs"
  shows "evs = [Res 400 b] \<and> s' = s"
proof (cases r)
  case POST_users
  with assms show ?thesis
    by (auto simp: createUser_def Let_def split: if_splits prod.splits sum.splits)
next
  case GET_users
  with assms show ?thesis
    by (auto simp: getUserByName_def Let_def split: if_splits prod.splits sum.splits option.splits)
next
  case GET_users_id
  with assms show ?thesis
    by (auto simp: getUserById_def Let_def split: if_splits prod.splits sum.splits option.splits)
next
  case PUT_users_id
  with assms show ?thesis
    by (auto simp: updateUserById_def Let_def split: if_splits prod.splits sum.splits option.splits)
next
  case PUT_users
  with assms show ?thesis
    by (auto simp: updateUserByName_def Let_def split: if_splits prod.splits sum.splits)
next
  case DELETE_users
  with assms show ?thesis
    by (auto simp: deleteUserByName_def Let_def split: if_splits prod.splits sum.splits)
next
  case DELETE_users_id
  with assms show ?thesis
    by (auto simp: deleteUserById_def Let_def split: if_splits prod.splits sum.splits option.splits)
qed

theorem validation_precedes_store_witness:
  "router PUT_users memory
       \<lparr>body_name = JStr ''New Name'', query_name = QUndefined, param_id = []\<rparr> sample_store =
     ([Res 400 (Message ''Both old name (query) and new name (body) are required'')],
      sample_store) \<and>
   Res 400 (Message ''Both old name (query) and new name (body) are required'')
     \<in> set [Res 400 (Message ''Both old name (query) and new name (body) are required'')] \<and>
   router DELETE_users memory
       \<lparr>body_name = JUndefined, query_name = QArr [QStr ''a'', QStr ''b''], param_id = []\<rparr>
       sample_store =
     ([Res 400 (Message ''Name query parameter is required'')], sample_store)"
proof -
  have a: "router PUT_users memory
       \<lparr>body_name = JStr ''New Name'', query_name = QUndefined, param_id = []\<rparr> sample_store =
     ([Res 400 (Message ''Both old name (query) and new name (body) are required'')],
      sample_store)"
    by (simp add: updateUserByName_def)
  have b: "router DELETE_users memory
       \<lparr>body_name = JUndefined, query_name = QArr [QStr ''a'', QStr ''b''], param_id = []\<rparr>
       sample_store =
     ([Res 400 (Message ''Name query parameter is required'')], sample_store)"
    by (simp add: deleteUserByName_def)
  have m: "Res 400 (Message ''Both old name (query) and new name (body) are required'')
     \<in> set [Res 400 (Message ''Both old name (query) and new name (body) are required'')]"
    by simp
  from validation_precedes_store[OF a m] a b m
  show ?thesis by simp
qed

end
